theory Spec2Isabelle
  imports Complex_Main
begin

section \<open>Values, identifiers and documents\<close>

text \<open>
  The store's native identifier (bson's \<open>ObjectId\<close>) holds bytes. It is kept here as the
  lowercase hexadecimal digits of its bytes, two per byte, which is the string that
  \<open>str(oid)\<close> prints: 24 characters for the 12 bytes of a generated identifier.
\<close>

datatype ObjectId = ObjectId string

text \<open>
  A Python value as it occurs in a document. A \<open>dict\<close> is an association list in
  insertion order. \<open>VStrOf v\<close> is the \<open>str\<close> object \<open>str(v)\<close> of a float, list or
  dict \<open>v\<close>, whose characters are not computed here.
\<close>

datatype pyval =
    VNone
  | VBool bool
  | VInt int
  | VFloat real
  | VStr string
  | VOid ObjectId
  | VList "pyval list"
  | VDict "(string \<times> pyval) list"
  | VStrOf pyval

type_synonym pydict = "(string \<times> pyval) list"

subsection \<open>ObjectId(s) and str(oid)\<close>

definition is_hex :: "char \<Rightarrow> bool" where
  "is_hex c = (c \<in> set ''0123456789abcdefABCDEF'')"

definition lower_hex :: "char \<Rightarrow> char" where
  "lower_hex c =
     (if c = CHR ''A'' then CHR ''a'' else if c = CHR ''B'' then CHR ''b''
      else if c = CHR ''C'' then CHR ''c'' else if c = CHR ''D'' then CHR ''d''
      else if c = CHR ''E'' then CHR ''e'' else if c = CHR ''F'' then CHR ''f''
      else c)"

text \<open>ASCII whitespace: space, tab, line feed, vertical tab, form feed, carriage return.\<close>

definition is_space :: "char \<Rightarrow> bool" where
  "is_space c = (c \<in> set [CHR '' '', CHR 0x09, CHR 0x0A, CHR 0x0B, CHR 0x0C, CHR 0x0D])"

text \<open>
  \<open>bytes.fromhex(s)\<close>, with the bytes it returns written as hexadecimal digits. Each byte
  is two hexadecimal digits that stand next to each other; whitespace before a byte and at
  the end is skipped. \<open>None\<close> stands for the \<open>ValueError\<close> raised at any other character
  and at a digit without a partner.
\<close>

fun fromhex :: "string \<Rightarrow> string option" where
  "fromhex [] = Some []"
| "fromhex [c] = (if is_space c then Some [] else None)"
| "fromhex (c # c' # cs) =
     (if is_space c then fromhex (c' # cs)
      else if is_hex c \<and> is_hex c'
           then map_option (\<lambda>bytes. lower_hex c # lower_hex c' # bytes) (fromhex cs)
           else None)"

text \<open>
  \<open>ObjectId(s)\<close> of a string: the library tests \<open>len(s) == 24\<close> and then takes
  \<open>bytes.fromhex(s)\<close> as the identifier's bytes. \<open>None\<close> stands for the \<open>InvalidId\<close> raised
  when the length is not 24 or \<open>fromhex\<close> fails. A string of 24 characters with whitespace
  in it can be accepted, and gives an identifier of fewer than 12 bytes.
\<close>

definition ObjectId_of :: "string \<Rightarrow> ObjectId option" where
  "ObjectId_of s = (if length s = 24 then map_option ObjectId (fromhex s) else None)"

fun str_oid :: "ObjectId \<Rightarrow> string" where
  "str_oid (ObjectId h) = h"

subsection \<open>str(v)\<close>

definition digit_char :: "nat \<Rightarrow> char" where
  "digit_char d = ''0123456789'' ! (d mod 10)"

fun str_nat :: "nat \<Rightarrow> string" where
  "str_nat n = (if n < 10 then [digit_char n] else str_nat (n div 10) @ [digit_char n])"

definition str_int :: "int \<Rightarrow> string" where
  "str_int i = (if i < 0 then CHR ''-'' # str_nat (nat (- i)) else str_nat (nat i))"

fun py_str :: "pyval \<Rightarrow> pyval" where
  "py_str VNone = VStr ''None''"
| "py_str (VBool b) = VStr (if b then ''True'' else ''False'')"
| "py_str (VInt i) = VStr (str_int i)"
| "py_str (VStr s) = VStr s"
| "py_str (VOid oid) = VStr (str_oid oid)"
| "py_str (VStrOf v) = VStrOf v"
| "py_str v = VStrOf v"

fun is_str :: "pyval \<Rightarrow> bool" where
  "is_str (VStr s) = True"
| "is_str (VStrOf v) = True"
| "is_str v = False"

fun isinstance_ObjectId :: "pyval \<Rightarrow> bool" where
  "isinstance_ObjectId (VOid oid) = True"
| "isinstance_ObjectId v = False"

text \<open>Whether a native identifier occurs anywhere inside a value.\<close>

fun has_ObjectId :: "pyval \<Rightarrow> bool"
  and has_ObjectId_list :: "pyval list \<Rightarrow> bool"
  and has_ObjectId_items :: "(string \<times> pyval) list \<Rightarrow> bool" where
  "has_ObjectId (VOid oid) = True"
| "has_ObjectId (VList xs) = has_ObjectId_list xs"
| "has_ObjectId (VDict kvs) = has_ObjectId_items kvs"
| "has_ObjectId (VStrOf v) = False"
| "has_ObjectId VNone = False"
| "has_ObjectId (VBool b) = False"
| "has_ObjectId (VInt i) = False"
| "has_ObjectId (VFloat x) = False"
| "has_ObjectId (VStr s) = False"
| "has_ObjectId_list [] = False"
| "has_ObjectId_list (x # xs) = (has_ObjectId x \<or> has_ObjectId_list xs)"
| "has_ObjectId_items [] = False"
| "has_ObjectId_items (kv # kvs) = (has_ObjectId (snd kv) \<or> has_ObjectId_items kvs)"

subsection \<open>dict operations\<close>

definition dict_get :: "pydict \<Rightarrow> string \<Rightarrow> pyval option" where
  "dict_get d k = map_of d k"

definition dict_in :: "string \<Rightarrow> pydict \<Rightarrow> bool" where
  "dict_in k d = (k \<in> set (map fst d))"

text \<open>\<open>d[k] = v\<close>: an existing key keeps its place, a new key goes last.\<close>

fun dict_set :: "string \<Rightarrow> pyval \<Rightarrow> pydict \<Rightarrow> pydict" where
  "dict_set k v [] = [(k, v)]"
| "dict_set k v ((k', v') # d) =
     (if k' = k then (k, v) # d else (k', v') # dict_set k v d)"

definition dict_pop :: "string \<Rightarrow> pydict \<Rightarrow> pydict" where
  "dict_pop k d = filter (\<lambda>kv. fst kv \<noteq> k) d"

section \<open>serialize_doc\<close>

text \<open>
  \<^verbatim>\<open>if "_id" in d: d["id"] = str(d.pop("_id"))\<close>
\<close>

definition rename_id :: "pydict \<Rightarrow> pydict" where
  "rename_id d =
     (case dict_get d ''_id'' of
        None \<Rightarrow> d
      | Some v \<Rightarrow> dict_set ''id'' (py_str v) (dict_pop ''_id'' d))"

text \<open>
  \<^verbatim>\<open>for k, v in d.items(): if isinstance(v, ObjectId): d[k] = str(v)\<close>
  The loop visits the entries of \<open>d\<close> itself, one after the other, and rebinds the
  entry it is at.
\<close>

fun convert_items :: "pydict \<Rightarrow> pydict" where
  "convert_items [] = []"
| "convert_items ((k, v) # d) =
     (k, if isinstance_ObjectId v then py_str v else v) # convert_items d"

text \<open>\<open>None\<close> is Python's \<open>None\<close>; \<open>not doc\<close> holds of \<open>None\<close> and of the empty dict.\<close>

definition falsy :: "pydict option \<Rightarrow> bool" where
  "falsy doc = (doc = None \<or> doc = Some [])"

definition serialize_doc :: "pydict option \<Rightarrow> pydict option" where
  "serialize_doc doc =
     (if falsy doc then doc
      else Some (convert_items (rename_id (the doc))))"

subsection \<open>serialize_doc on objects in a heap\<close>

text \<open>
  To speak about mutation, dict objects live in a heap and are passed by reference:
  a reference is an index into the heap, \<open>dict(doc)\<close> allocates a new object, and the
  assignments to \<open>d\<close> write to that object only.
\<close>

type_synonym heap = "pydict list"

definition serialize_doc_ref :: "heap \<Rightarrow> nat option \<Rightarrow> nat option \<times> heap" where
  "serialize_doc_ref h doc =
     (case doc of
        None \<Rightarrow> (None, h)
      | Some r \<Rightarrow>
          if h ! r = [] then (Some r, h)
          else
            let d = length h;
                h1 = h @ [h ! r];
                h2 = h1[d := rename_id (h1 ! d)];
                h3 = h2[d := convert_items (h2 ! d)]
            in (Some d, h3))"

section \<open>Schemas\<close>

text \<open>
  The pydantic models of \<^verbatim>\<open>schemas.py\<close>. A record holds a candidate whose fields have
  the declared types; the declared bounds (\<open>ge\<close>) are checked by the validators below.
  A Python \<open>float\<close> is read as the real number it denotes.
\<close>

record ProductVariant =
  size_pv :: "string option"
  color_pv :: "string option"
  sku :: "string option"
  stock :: int

record Product =
  title :: string
  description :: "string option"
  price :: real
  category :: string
  images :: "string list"
  brand :: string
  tags :: "string list"
  variants :: "ProductVariant list"
  featured :: bool

record CartItem =
  product_id :: string
  quantity :: int
  size_ci :: "string option"
  color_ci :: "string option"

record CustomerInfo =
  name :: string
  email :: string
  address :: string
  city :: string
  country :: string
  postal_code :: string

record Order =
  items :: "CartItem list"
  subtotal :: real
  shipping :: real
  total_o :: real
  currency :: string
  status :: string
  customer :: CustomerInfo

subsection \<open>Validation\<close>

datatype loc = Field string | Index nat

type_synonym verror = "loc list \<times> string"

definition constraint :: "bool \<Rightarrow> loc list \<Rightarrow> string \<Rightarrow> verror list" where
  "constraint ok path kind = (if ok then [] else [(path, kind)])"

definition validate_ProductVariant :: "loc list \<Rightarrow> ProductVariant \<Rightarrow> verror list" where
  "validate_ProductVariant path v =
     constraint (stock v \<ge> 0) (path @ [Field ''stock'']) ''greater_than_equal''"

definition validate_Product :: "loc list \<Rightarrow> Product \<Rightarrow> verror list" where
  "validate_Product path p =
     constraint (price p \<ge> 0) (path @ [Field ''price'']) ''greater_than_equal''
     @ concat (map (\<lambda>(i, v). validate_ProductVariant (path @ [Field ''variants'', Index i]) v)
                   (enumerate 0 (variants p)))"

definition validate_CartItem :: "loc list \<Rightarrow> CartItem \<Rightarrow> verror list" where
  "validate_CartItem path item =
     constraint (quantity item \<ge> 1) (path @ [Field ''quantity'']) ''greater_than_equal''"

text \<open>\<open>EmailStr\<close> is checked by a library; its test is the parameter \<open>valid_email\<close>.\<close>

definition validate_CustomerInfo ::
  "(string \<Rightarrow> bool) \<Rightarrow> loc list \<Rightarrow> CustomerInfo \<Rightarrow> verror list" where
  "validate_CustomerInfo valid_email path c =
     constraint (valid_email (email c)) (path @ [Field ''email'']) ''value_error''"

definition validate_Order ::
  "(string \<Rightarrow> bool) \<Rightarrow> loc list \<Rightarrow> Order \<Rightarrow> verror list" where
  "validate_Order valid_email path ord =
     concat (map (\<lambda>(i, item). validate_CartItem (path @ [Field ''items'', Index i]) item)
                 (enumerate 0 (items ord)))
     @ constraint (subtotal ord \<ge> 0) (path @ [Field ''subtotal'']) ''greater_than_equal''
     @ constraint (shipping ord \<ge> 0) (path @ [Field ''shipping'']) ''greater_than_equal''
     @ constraint (total_o ord \<ge> 0) (path @ [Field ''total'']) ''greater_than_equal''
     @ validate_CustomerInfo valid_email (path @ [Field ''customer'']) (customer ord)"

subsection \<open>Entity fields as a document\<close>

fun opt_str :: "string option \<Rightarrow> pyval" where
  "opt_str None = VNone"
| "opt_str (Some s) = VStr s"

definition dump_ProductVariant :: "ProductVariant \<Rightarrow> pydict" where
  "dump_ProductVariant v =
     [(''size'', opt_str (size_pv v)), (''color'', opt_str (color_pv v)),
      (''sku'', opt_str (sku v)), (''stock'', VInt (stock v))]"

definition dump_Product :: "Product \<Rightarrow> pydict" where
  "dump_Product p =
     [(''title'', VStr (title p)), (''description'', opt_str (description p)),
      (''price'', VFloat (price p)), (''category'', VStr (category p)),
      (''images'', VList (map VStr (images p))), (''brand'', VStr (brand p)),
      (''tags'', VList (map VStr (tags p))),
      (''variants'', VList (map (\<lambda>v. VDict (dump_ProductVariant v)) (variants p))),
      (''featured'', VBool (featured p))]"

definition dump_CartItem :: "CartItem \<Rightarrow> pydict" where
  "dump_CartItem item =
     [(''product_id'', VStr (product_id item)), (''quantity'', VInt (quantity item)),
      (''size'', opt_str (size_ci item)), (''color'', opt_str (color_ci item))]"

definition dump_CustomerInfo :: "CustomerInfo \<Rightarrow> pydict" where
  "dump_CustomerInfo c =
     [(''name'', VStr (name c)), (''email'', VStr (email c)),
      (''address'', VStr (address c)), (''city'', VStr (city c)),
      (''country'', VStr (country c)), (''postal_code'', VStr (postal_code c))]"

definition dump_Order :: "Order \<Rightarrow> pydict" where
  "dump_Order ord =
     [(''items'', VList (map (\<lambda>item. VDict (dump_CartItem item)) (items ord))),
      (''subtotal'', VFloat (subtotal ord)), (''shipping'', VFloat (shipping ord)),
      (''total'', VFloat (total_o ord)), (''currency'', VStr (currency ord)),
      (''status'', VStr (status ord)),
      (''customer'', VDict (dump_CustomerInfo (customer ord)))]"

section \<open>The document store\<close>

text \<open>
  A store holds its collections by name, each a list of documents in insertion order
  (a collection never written to is empty), and a counter from which it generates the
  next identifier. The module-level handle \<open>db\<close> is a \<open>store option\<close>: \<open>None\<close> when
  no database is configured.
\<close>

record store =
  colls :: "string \<Rightarrow> pydict list"
  next_id :: nat

definition hex_char :: "nat \<Rightarrow> char" where
  "hex_char d = ''0123456789abcdef'' ! (d mod 16)"

fun hex_digits :: "nat \<Rightarrow> nat \<Rightarrow> string" where
  "hex_digits 0 n = []"
| "hex_digits (Suc k) n = hex_digits k (n div 16) @ [hex_char n]"

definition new_ObjectId :: "nat \<Rightarrow> ObjectId" where
  "new_ObjectId n = ObjectId (hex_digits 24 n)"

text \<open>\<open>collection.find_one({"_id": oid})\<close> and \<open>collection.count_documents({})\<close>.\<close>

definition find_one :: "pydict list \<Rightarrow> ObjectId \<Rightarrow> pydict option" where
  "find_one docs oid = find (\<lambda>d. dict_get d ''_id'' = Some (VOid oid)) docs"

definition count_documents :: "pydict list \<Rightarrow> nat" where
  "count_documents docs = length docs"

text \<open>
  Modelled from the spec: \<open>create_document\<close> of the module \<open>database\<close>, which is not
  among the sources. The spec's \<open>insert(collection, entity) \<rightarrow> id\<close> serializes the entity's
  fields (excluding an identifier), writes a new document and returns the store-generated
  identifier as an opaque string.
\<close>

definition create_document :: "store \<Rightarrow> string \<Rightarrow> pydict \<Rightarrow> string \<times> store" where
  "create_document s coll data =
     (let oid = new_ObjectId (next_id s)
      in (str_oid oid,
          s\<lparr>colls := (colls s)(coll := colls s coll @ [(''_id'', VOid oid) # data]),
            next_id := Suc (next_id s)\<rparr>))"

text \<open>
  Modelled from the spec: \<open>get_documents\<close> of the module \<open>database\<close>, which is not among
  the sources. The spec's \<open>find(collection, filter)\<close> takes a flat equality mapping over a
  subset of the fields and returns the matching documents.
\<close>

definition matches :: "pydict \<Rightarrow> pydict \<Rightarrow> bool" where
  "matches query d = list_all (\<lambda>kv. dict_get d (fst kv) = Some (snd kv)) query"

definition get_documents :: "store \<Rightarrow> string \<Rightarrow> pydict \<Rightarrow> pydict list" where
  "get_documents s coll query = filter (matches query) (colls s coll)"

section \<open>Request handlers\<close>

datatype failure =
    HTTPException nat string
  | RequestValidationError "verror list"

fun status_code :: "failure \<Rightarrow> nat" where
  "status_code (HTTPException code detail) = code"
| "status_code (RequestValidationError errs) = 422"

definition not_configured :: failure where
  "not_configured = HTTPException 500 ''Database not configured''"

subsection \<open>Products\<close>

text \<open>The query of \<open>list_products\<close>: \<open>if category:\<close> is false of \<open>None\<close> and of \<open>""\<close>.\<close>

definition list_products_query :: "string option \<Rightarrow> bool option \<Rightarrow> pydict" where
  "list_products_query category_p featured_p =
     (let query = [];
          query = (case category_p of
                     None \<Rightarrow> query
                   | Some c \<Rightarrow> if c \<noteq> [] then dict_set ''category'' (VStr c) query else query);
          query = (case featured_p of
                     None \<Rightarrow> query
                   | Some f \<Rightarrow> dict_set ''featured'' (VBool f) query)
      in query)"

definition list_products ::
  "store option \<Rightarrow> string option \<Rightarrow> bool option \<Rightarrow> failure + pydict option list" where
  "list_products db category_p featured_p =
     (case db of
        None \<Rightarrow> Inl not_configured
      | Some s \<Rightarrow>
          let products = get_documents s ''product'' (list_products_query category_p featured_p)
          in Inr (map (\<lambda>p. serialize_doc (Some p)) products))"

definition get_product :: "store option \<Rightarrow> string \<Rightarrow> failure + pydict option" where
  "get_product db pid =
     (case db of
        None \<Rightarrow> Inl not_configured
      | Some s \<Rightarrow>
          (case ObjectId_of pid of
             None \<Rightarrow> Inl (HTTPException 400 ''Invalid product id'')
           | Some oid \<Rightarrow>
               let doc = find_one (colls s ''product'') oid
               in if falsy doc then Inl (HTTPException 404 ''Product not found'')
                  else Inr (serialize_doc doc)))"

text \<open>
  After the insert the handler reads the document back. \<open>ObjectId(new_id)\<close> stands outside
  any \<open>try\<close>: if it raised, the framework would answer 500.
\<close>

definition read_back :: "store \<Rightarrow> string \<Rightarrow> string \<Rightarrow> failure + pydict option" where
  "read_back s coll new_id =
     (case ObjectId_of new_id of
        None \<Rightarrow> Inl (HTTPException 500 ''Internal Server Error'')
      | Some oid \<Rightarrow> Inr (serialize_doc (find_one (colls s coll) oid)))"

definition create_product ::
  "store option \<Rightarrow> Product \<Rightarrow> (failure + pydict option) \<times> store option" where
  "create_product db product =
     (case db of
        None \<Rightarrow> (Inl not_configured, db)
      | Some s \<Rightarrow>
          let (new_id, s') = create_document s ''product'' (dump_Product product)
          in (read_back s' ''product'' new_id, Some s'))"

subsection \<open>Orders\<close>

text \<open>
  The loop over \<open>order.items\<close>. The first component of the result is the exception
  raised, if any. The second component is a record of the run, not a value of the
  program: the items on which the loop body was executed, in the order of execution.
\<close>

fun check_items :: "store \<Rightarrow> CartItem list \<Rightarrow> failure option \<times> CartItem list" where
  "check_items s [] = (None, [])"
| "check_items s (item # rest) =
     (case ObjectId_of (product_id item) of
        None \<Rightarrow>
          (Some (HTTPException 400 (''Invalid product id: '' @ product_id item)), [item])
      | Some pid \<Rightarrow>
          if falsy (find_one (colls s ''product'') pid)
          then (Some (HTTPException 400 (''Product not found: '' @ product_id item)), [item])
          else (case check_items s rest of (e, visited) \<Rightarrow> (e, item # visited)))"

definition create_order ::
  "store option \<Rightarrow> Order \<Rightarrow> (failure + pydict option) \<times> store option" where
  "create_order db ord =
     (case db of
        None \<Rightarrow> (Inl not_configured, db)
      | Some s \<Rightarrow>
          (case fst (check_items s (items ord)) of
             Some e \<Rightarrow> (Inl e, db)
           | None \<Rightarrow>
               let (order_id, s') = create_document s ''order'' (dump_Order ord)
               in (read_back s' ''order'' order_id, Some s')))"

subsection \<open>Routes\<close>

text \<open>
  The framework validates the request body against the model of the handler's parameter
  and answers 422 without calling the handler when validation fails. The location of
  each error it reports starts with \<open>body\<close>.
\<close>

definition post_products ::
  "store option \<Rightarrow> Product \<Rightarrow> (failure + pydict option) \<times> store option" where
  "post_products db body =
     (case validate_Product [Field ''body''] body of
        [] \<Rightarrow> create_product db body
      | e # es \<Rightarrow> (Inl (RequestValidationError (e # es)), db))"

definition post_orders ::
  "(string \<Rightarrow> bool) \<Rightarrow> store option \<Rightarrow> Order \<Rightarrow> (failure + pydict option) \<times> store option" where
  "post_orders valid_email db body =
     (case validate_Order valid_email [Field ''body''] body of
        [] \<Rightarrow> create_order db body
      | e # es \<Rightarrow> (Inl (RequestValidationError (e # es)), db))"

subsection \<open>Seed sample data\<close>

definition SAMPLE_PRODUCTS :: "Product list" where
  "SAMPLE_PRODUCTS =
     [\<lparr>title = ''Vistro Classic Tee'',
       description = Some ''Soft cotton tee with minimalist Vistro logo.'',
       price = 28,
       category = ''T-Shirts'',
       images = [''https://images.unsplash.com/photo-1520975916090-3105956dac38?q=80&w=1200''],
       brand = ''Vistro'',
       tags = [''tee'', ''classic'', ''logo''],
       variants = map (\<lambda>s. \<lparr>size_pv = Some s, color_pv = Some ''Black'',
                               sku = Some (''VT-TEE-BLK-'' @ s), stock = 50\<rparr>)
                      [''S'', ''M'', ''L'', ''XL''],
       featured = True\<rparr>,
      \<lparr>title = ''Vistro Cozy Hoodie'',
       description = Some ''Premium fleece hoodie built for comfort.'',
       price = 64,
       category = ''Hoodies'',
       images = [''https://images.unsplash.com/photo-1516826957135-700dedea698c?q=80&w=1200''],
       brand = ''Vistro'',
       tags = [''hoodie'', ''fleece'', ''cozy''],
       variants = map (\<lambda>s. \<lparr>size_pv = Some s, color_pv = Some ''Heather Gray'',
                               sku = Some (''VT-HDY-GRY-'' @ s), stock = 30\<rparr>)
                      [''S'', ''M'', ''L'', ''XL''],
       featured = True\<rparr>,
      \<lparr>title = ''Vistro Performance Joggers'',
       description = Some ''Stretch joggers for all-day movement.'',
       price = 54,
       category = ''Bottoms'',
       images = [''https://images.unsplash.com/photo-1519741497674-611481863552?q=80&w=1200''],
       brand = ''Vistro'',
       tags = [''joggers'', ''athleisure''],
       variants = map (\<lambda>s. \<lparr>size_pv = Some s, color_pv = Some ''Charcoal'',
                               sku = Some (''VT-JGR-CHR-'' @ s), stock = 40\<rparr>)
                      [''S'', ''M'', ''L'', ''XL''],
       featured = False\<rparr>]"

text \<open>The loop over \<open>SAMPLE_PRODUCTS\<close>, with the list \<open>inserted\<close> as accumulator.\<close>

fun seed_loop :: "store \<Rightarrow> Product list \<Rightarrow> string list \<Rightarrow> string list \<times> store" where
  "seed_loop s [] inserted = (inserted, s)"
| "seed_loop s (p # ps) inserted =
     (let (new_id, s') = create_document s ''product'' (dump_Product p)
      in seed_loop s' ps (inserted @ [new_id]))"

definition seed_products :: "store option \<Rightarrow> (failure + pydict) \<times> store option" where
  "seed_products db =
     (case db of
        None \<Rightarrow> (Inl not_configured, db)
      | Some s \<Rightarrow>
          let count = count_documents (colls s ''product'')
          in if count > 0
             then (Inr [(''message'', VStr ''Products already seeded''),
                        (''count'', VInt (int count))], db)
             else let (inserted, s') = seed_loop s SAMPLE_PRODUCTS []
                  in (Inr [(''message'', VStr ''Seeded sample products''),
                           (''inserted'', VList (map VStr inserted))], Some s'))"

section \<open>Predicates and sample data used in the statements\<close>

text \<open>
  A product id resolves when \<open>ObjectId\<close> accepts it and the product collection holds a
  document with that identifier.
\<close>

definition resolves :: "store \<Rightarrow> string \<Rightarrow> bool" where
  "resolves s pid =
     (case ObjectId_of pid of
        None \<Rightarrow> False
      | Some oid \<Rightarrow> find_one (colls s ''product'') oid \<noteq> None)"


text \<open>Small concrete inputs: an empty store, a product, stores that hold it, a cart, an order.\<close>

definition store0 :: store where
  "store0 = \<lparr>colls = (\<lambda>c. []), next_id = 0\<rparr>"

definition tee :: Product where
  "tee = \<lparr>title = ''Tee'', description = None, price = 5, category = ''T-Shirts'',
          images = [], brand = ''Vistro'', tags = [],
          variants = [\<lparr>size_pv = Some ''M'', color_pv = None, sku = None, stock = 2\<rparr>],
          featured = False\<rparr>"

definition store1 :: store where
  "store1 =
     \<lparr>colls = (\<lambda>c. [])(''product'' := [(''_id'', VOid (new_ObjectId 0)) # dump_Product tee]),
      next_id = 1\<rparr>"

definition store2 :: store where
  "store2 =
     \<lparr>colls = (\<lambda>c. [])(''product'' :=
         [(''_id'', VOid (new_ObjectId 0)) # dump_Product tee,
          (''_id'', VOid (new_ObjectId 1)) # dump_Product (tee\<lparr>featured := True\<rparr>)]),
      next_id = 2\<rparr>"

definition cart :: "string \<Rightarrow> int \<Rightarrow> CartItem" where
  "cart pid q = \<lparr>product_id = pid, quantity = q, size_ci = None, color_ci = None\<rparr>"

definition order_of :: "CartItem list \<Rightarrow> Order" where
  "order_of its =
     \<lparr>items = its, subtotal = 5, shipping = 1, total_o = 6, currency = ''USD'',
      status = ''pending'',
      customer = \<lparr>name = ''A'', email = ''a@b.c'', address = ''1 Road'', city = ''X'',
                  country = ''Y'', postal_code = ''Z''\<rparr>\<rparr>"

section \<open>Auxiliary facts\<close>

subsection \<open>Identifiers\<close>

lemma length_hex_digits: "length (hex_digits k n) = k"
  by (induction k arbitrary: n) auto

lemma hex_char_in: "hex_char d \<in> set ''0123456789abcdef''"
  unfolding hex_char_def by (rule nth_mem) simp

lemma hex_char_is_hex: "is_hex (hex_char d)"
  using hex_char_in [of d] unfolding is_hex_def by auto

lemma hex_char_lower: "lower_hex (hex_char d) = hex_char d"
  using hex_char_in [of d] unfolding lower_hex_def by auto

lemma hex_digits_is_hex: "list_all is_hex (hex_digits k n)"
  by (induction k arbitrary: n) (auto simp: hex_char_is_hex)

lemma hex_digits_lower: "map lower_hex (hex_digits k n) = hex_digits k n"
  by (induction k arbitrary: n) (auto simp: hex_char_lower)

lemma is_hex_not_space: "is_hex c \<Longrightarrow> \<not> is_space c"
  by (auto simp: is_hex_def is_space_def)

lemma fromhex_hex:
  "list_all is_hex xs \<Longrightarrow> even (length xs) \<Longrightarrow> fromhex xs = Some (map lower_hex xs)"
  by (induction xs rule: fromhex.induct) (auto simp: is_hex_not_space)





text \<open>The string of a generated identifier parses back to that identifier.\<close>

lemma ObjectId_of_new: "ObjectId_of (str_oid (new_ObjectId n)) = Some (new_ObjectId n)"
  by (simp add: ObjectId_of_def new_ObjectId_def length_hex_digits
      hex_digits_is_hex hex_digits_lower fromhex_hex)

lemma new_ObjectId_0: "new_ObjectId 0 = ObjectId ''000000000000000000000000''"
  by code_simp

lemma str_oid_new_0: "str_oid (new_ObjectId 0) = ''000000000000000000000000''"
  by (simp add: new_ObjectId_0)

subsection \<open>Lookup\<close>

lemma find_append_None:
  "find P xs = None \<Longrightarrow> find P (xs @ ys) = find P ys"
  by (induction xs) (auto split: if_splits)

lemma find_one_inserted:
  "find_one docs oid = None \<Longrightarrow>
   find_one (docs @ [(''_id'', VOid oid) # data]) oid = Some ((''_id'', VOid oid) # data)"
  by (simp add: find_one_def find_append_None dict_get_def)

lemma find_one_not_empty: "find_one docs oid \<noteq> Some []"
proof
  assume "find_one docs oid = Some []"
  then have "dict_get [] ''_id'' = Some (VOid oid)"
    unfolding find_one_def by (auto simp: find_Some_iff)
  then show False by (simp add: dict_get_def)
qed

lemma falsy_find_one: "falsy (find_one docs oid) = (find_one docs oid = None)"
  by (simp add: falsy_def find_one_not_empty)

lemma resolves_store1: "resolves store1 (str_oid (new_ObjectId 0))"
  by (simp add: resolves_def ObjectId_of_new store1_def find_one_def dict_get_def)

lemma not_resolves_nope: "\<not> resolves s ''nope''"
  by (simp add: resolves_def ObjectId_of_def)

subsection \<open>Serialization of top-level entries\<close>

lemma py_str_is_str: "is_str (py_str v)"
  by (cases v) auto

lemma opt_str_not_oid: "\<not> isinstance_ObjectId (opt_str x)"
  by (cases x) auto

lemma opt_str_case: "opt_str x = (case x of None \<Rightarrow> VNone | Some t \<Rightarrow> VStr t)"
  by (cases x) auto

lemma keys_dict_set: "set (map fst (dict_set k v d)) = insert k (set (map fst d))"
proof (induction d)
  case Nil
  then show ?case by simp
next
  case (Cons kv d)
  obtain k' v' where kv: "kv = (k', v')" by (cases kv)
  show ?case
  proof (cases "k' = k")
    case True
    then show ?thesis using kv by simp
  next
    case False
    then show ?thesis using kv Cons by (simp add: insert_commute)
  qed
qed

lemma keys_convert_items: "map fst (convert_items d) = map fst d"
  by (induction d) auto

lemma convert_items_no_oid:
  "list_all (\<lambda>kv. \<not> isinstance_ObjectId (snd kv)) (convert_items d)"
proof (induction d)
  case Nil
  then show ?case by simp
next
  case (Cons kv d)
  obtain k v where "kv = (k, v)" by (cases kv)
  with Cons show ?case by (cases v) auto
qed

lemma rename_id_keys: "''_id'' \<notin> set (map fst (rename_id d))"
proof (cases "dict_get d ''_id''")
  case None
  then have "''_id'' \<notin> set (map fst d)"
    by (simp add: dict_get_def map_of_eq_None_iff)
  with None show ?thesis
    by (simp add: rename_id_def)
next
  case (Some v)
  then have "set (map fst (rename_id d)) = insert ''id'' (set (map fst (dict_pop ''_id'' d)))"
    by (simp add: rename_id_def keys_dict_set del: set_map)
  then show ?thesis
    by (auto simp: dict_pop_def)
qed

text \<open>
  What the function does achieve: in the result no key \<open>_id\<close> is left and no top-level
  value is a native identifier.
\<close>

lemma serialize_doc_top_level:
  assumes "d \<noteq> []" and "serialize_doc (Some d) = Some d'"
  shows "\<not> dict_in ''_id'' d' \<and> list_all (\<lambda>kv. \<not> isinstance_ObjectId (snd kv)) d'"
  using assms rename_id_keys [of d]
  by (auto simp: serialize_doc_def falsy_def dict_in_def keys_convert_items
      convert_items_no_oid simp del: set_map)

lemma serialize_stored_Product:
  "serialize_doc (Some ((''_id'', VOid oid) # dump_Product p))
   = Some (dump_Product p @ [(''id'', VStr (str_oid oid))])"
  by (simp add: serialize_doc_def falsy_def rename_id_def dict_get_def dict_pop_def
      dump_Product_def opt_str_not_oid)

subsection \<open>Validation\<close>

lemma enumerate_stock_errors:
  "v \<in> set vs \<Longrightarrow> stock v < 0 \<Longrightarrow>
   concat (map (\<lambda>(i, v). validate_ProductVariant (path @ [Field ''variants'', Index i]) v)
               (enumerate n vs)) \<noteq> []"
  by (induction vs arbitrary: n) (auto simp: validate_ProductVariant_def constraint_def)

lemma enumerate_quantity_errors:
  "item \<in> set its \<Longrightarrow> quantity item < 1 \<Longrightarrow>
   concat (map (\<lambda>(i, item). validate_CartItem (path @ [Field ''items'', Index i]) item)
               (enumerate n its)) \<noteq> []"
  by (induction its arbitrary: n) (auto simp: validate_CartItem_def constraint_def)

lemma post_products_invalid:
  "validate_Product [Field ''body''] p \<noteq> [] \<Longrightarrow>
   post_products db p = (Inl (RequestValidationError (validate_Product [Field ''body''] p)), db)"
  by (cases "validate_Product [Field ''body''] p") (simp_all add: post_products_def)

lemma post_orders_invalid:
  "validate_Order ve [Field ''body''] ord \<noteq> [] \<Longrightarrow>
   post_orders ve db ord
   = (Inl (RequestValidationError (validate_Order ve [Field ''body''] ord)), db)"
  by (cases "validate_Order ve [Field ''body''] ord") (simp_all add: post_orders_def)

subsection \<open>The item check of order creation\<close>

lemma check_items_bad:
  "item \<in> set its \<Longrightarrow> \<not> resolves s (product_id item) \<Longrightarrow>
   \<exists>d. fst (check_items s its) = Some (HTTPException 400 d)"
  by (induction its)
     (auto simp: resolves_def falsy_find_one split: option.splits prod.splits)

lemma check_items_first_bad:
  "list_all (\<lambda>item. resolves s (product_id item)) pre \<Longrightarrow>
   \<not> resolves s (product_id bad) \<Longrightarrow>
   check_items s (pre @ bad # post) =
     (Some (HTTPException 400
       ((if ObjectId_of (product_id bad) = None then ''Invalid product id: ''
         else ''Product not found: '') @ product_id bad)),
      pre @ [bad])"
  by (induction pre)
     (auto simp: resolves_def falsy_find_one split: option.splits)

subsection \<open>Create, then get\<close>

lemma create_then_get_dump:
  assumes "find_one (colls s ''product'') (new_ObjectId (next_id s)) = None"
  shows "\<exists>s'. create_product (Some s) p
            = (Inr (Some (dump_Product p @ [(''id'', VStr (str_oid (new_ObjectId (next_id s))))])),
               Some s')
          \<and> get_product (Some s') (str_oid (new_ObjectId (next_id s)))
            = Inr (Some (dump_Product p @ [(''id'', VStr (str_oid (new_ObjectId (next_id s))))]))"
  using assms
  by (simp add: create_product_def create_document_def get_product_def read_back_def
      ObjectId_of_new find_one_inserted serialize_stored_Product falsy_def Let_def)

subsection \<open>Queries\<close>

lemma matches_single: "matches [(k, v)] = (\<lambda>d. dict_get d k = Some v)"
  by (rule ext) (simp add: matches_def)

lemma matches_Nil: "matches [] = (\<lambda>d. True)"
  by (rule ext) (simp add: matches_def)

lemma query_empty_category: "list_products_query (Some []) f = list_products_query None f"
  by (simp add: list_products_query_def)

lemma query_featured_only:
  "list_products_query None (Some b) = [(''featured'', VBool b)]"
  by (simp add: list_products_query_def)

lemma query_none: "list_products_query None None = []"
  by (simp add: list_products_query_def)

lemma query_featured_False:
  "dict_get (list_products_query c (Some False)) ''featured'' = Some (VBool False)"
  by (cases c) (auto simp: list_products_query_def dict_get_def)

lemma list_products_empty_category:
  "list_products db (Some []) f = list_products db None f"
  by (cases db) (simp_all add: list_products_def query_empty_category)

subsection \<open>Seeding\<close>

lemma seed_loop_result:
  "seed_loop s ps acc =
     (acc @ map (\<lambda>k. str_oid (new_ObjectId k)) [next_id s..<next_id s + length ps],
      s\<lparr>colls := (colls s)(''product'' := colls s ''product''
                  @ map (\<lambda>(k, p). (''_id'', VOid (new_ObjectId k)) # dump_Product p)
                        (enumerate (next_id s) ps)),
        next_id := next_id s + length ps\<rparr>)"
proof (induction ps arbitrary: s acc)
  case Nil
  then show ?case by simp
next
  case (Cons p ps)
  define doc where "doc = (''_id'', VOid (new_ObjectId (next_id s))) # dump_Product p"
  define s' where
    "s' = s\<lparr>colls := (colls s)(''product'' := colls s ''product'' @ [doc]),
            next_id := Suc (next_id s)\<rparr>"
  have step: "seed_loop s (p # ps) acc
              = seed_loop s' ps (acc @ [str_oid (new_ObjectId (next_id s))])"
    by (simp add: create_document_def Let_def s'_def doc_def)
  have c: "colls s' ''product'' = colls s ''product'' @ [doc]" "next_id s' = Suc (next_id s)"
    by (simp_all add: s'_def)
  have u: "s'\<lparr>colls := (colls s')(''product'' := X), next_id := N\<rparr>
           = s\<lparr>colls := (colls s)(''product'' := X), next_id := N\<rparr>" for X N
    by (simp add: s'_def)
  have ids: "[next_id s..<next_id s + length (p # ps)]
             = next_id s # [Suc (next_id s)..<Suc (next_id s) + length ps]"
    by (simp add: upt_conv_Cons del: upt_Suc)
  have en: "enumerate (next_id s) (p # ps) = (next_id s, p) # enumerate (Suc (next_id s)) ps"
    by simp
  show ?case
    unfolding step Cons.IH c u ids en
    by (simp add: doc_def fun_upd_def del: upt_Suc)
qed

lemma length_SAMPLE_PRODUCTS: "length SAMPLE_PRODUCTS = 3"
  by (simp add: SAMPLE_PRODUCTS_def)

section \<open>The claims\<close>

subsection \<open>C1: identifiers nested inside a document\<close>

text \<open>
  Claim C1: every native identifier in a serialized document is turned into a string, at
  any nesting depth. The function renames the key \<open>_id\<close> and converts the values that sit
  directly in the document, but it does not descend into lists and sub-documents. On an
  order-like document whose \<open>items\<close> list holds a sub-document with a native identifier,
  the top-level entries \<open>_id\<close> and \<open>owner\<close> come out as strings and the identifier inside
  \<open>items\<close> is returned as it was.
\<close>

theorem serialize_doc_keeps_nested_ObjectId:
  "serialize_doc
     (Some [(''_id'', VOid (ObjectId ''000000000000000000000001'')),
            (''owner'', VOid (ObjectId ''000000000000000000000003'')),
            (''items'', VList [VDict [(''product_id'',
                                       VOid (ObjectId ''000000000000000000000002''))]])])
   = Some [(''owner'', VStr ''000000000000000000000003''),
           (''items'', VList [VDict [(''product_id'',
                                      VOid (ObjectId ''000000000000000000000002''))]]),
           (''id'', VStr ''000000000000000000000001'')]
   \<and> has_ObjectId (VDict (the (serialize_doc
     (Some [(''_id'', VOid (ObjectId ''000000000000000000000001'')),
            (''owner'', VOid (ObjectId ''000000000000000000000003'')),
            (''items'', VList [VDict [(''product_id'',
                                       VOid (ObjectId ''000000000000000000000002''))]])]))))"
  by (simp add: serialize_doc_def falsy_def rename_id_def dict_get_def dict_pop_def)

subsection \<open>C2: an order with an unresolvable item is rejected before any write\<close>

text \<open>
  Claim C2: when some item of the order has a product id that is malformed or that matches
  no product in the store, order creation fails and the store it returns is the store it
  was given, so no collection has gained a document. With no store configured the request
  fails as well, and there is nothing to write to.
\<close>

theorem create_order_rejects_without_write:
  assumes "item \<in> set (items ord)"
    and "case db of None \<Rightarrow> True | Some s \<Rightarrow> \<not> resolves s (product_id item)"
  shows "\<exists>e. create_order db ord = (Inl e, db)"
proof (cases db)
  case None
  then show ?thesis by (simp add: create_order_def)
next
  case (Some s)
  with assms have "\<not> resolves s (product_id item)" by simp
  from check_items_bad [OF assms(1) this] obtain d
    where "fst (check_items s (items ord)) = Some (HTTPException 400 d)" by blast
  with Some show ?thesis by (simp add: create_order_def)
qed

theorem create_order_rejects_without_write_witness:
  "cart ''nope'' 1 \<in> set (items (order_of [cart (str_oid (new_ObjectId 0)) 1, cart ''nope'' 1]))
   \<and> \<not> resolves store1 (product_id (cart ''nope'' 1))
   \<and> (\<exists>e. create_order (Some store1)
              (order_of [cart (str_oid (new_ObjectId 0)) 1, cart ''nope'' 1])
            = (Inl e, Some store1))"
proof -
  have a: "cart ''nope'' 1
           \<in> set (items (order_of [cart (str_oid (new_ObjectId 0)) 1, cart ''nope'' 1]))"
    by (simp add: order_of_def)
  have b: "\<not> resolves store1 (product_id (cart ''nope'' 1))"
    by (simp add: cart_def not_resolves_nope)
  have c: "case Some store1 of None \<Rightarrow> True
           | Some s \<Rightarrow> \<not> resolves s (product_id (cart ''nope'' 1))"
    using b by simp
  from create_order_rejects_without_write [OF a c] a b show ?thesis by blast
qed

subsection \<open>C3: create a product, then get it\<close>

text \<open>
  Claim C3: creating a product and then fetching the returned id yields a document that
  has every field of the product, each under its name and with the product's value, the
  variants with their four fields each, and one more entry, the \<open>id\<close>. The expected
  document is written out entry by entry. The premise says that the identifier the store
  generates next is not yet used in the product collection, as a store's unique
  identifiers guarantee.
\<close>

theorem create_then_get_product:
  assumes "find_one (colls s ''product'') (new_ObjectId (next_id s)) = None"
  shows "\<exists>s'. snd (create_product (Some s) p) = Some s'
          \<and> fst (create_product (Some s) p)
            = get_product (Some s') (str_oid (new_ObjectId (next_id s)))
          \<and> get_product (Some s') (str_oid (new_ObjectId (next_id s)))
            = Inr (Some
                [(''title'', VStr (title p)),
                 (''description'', (case description p of None \<Rightarrow> VNone | Some t \<Rightarrow> VStr t)),
                 (''price'', VFloat (price p)),
                 (''category'', VStr (category p)),
                 (''images'', VList (map VStr (images p))),
                 (''brand'', VStr (brand p)),
                 (''tags'', VList (map VStr (tags p))),
                 (''variants'',
                  VList (map (\<lambda>v. VDict
                     [(''size'', (case size_pv v of None \<Rightarrow> VNone | Some t \<Rightarrow> VStr t)),
                      (''color'', (case color_pv v of None \<Rightarrow> VNone | Some t \<Rightarrow> VStr t)),
                      (''sku'', (case sku v of None \<Rightarrow> VNone | Some t \<Rightarrow> VStr t)),
                      (''stock'', VInt (stock v))]) (variants p))),
                 (''featured'', VBool (featured p)),
                 (''id'', VStr (str_oid (new_ObjectId (next_id s))))])"
proof -
  from create_then_get_dump [OF assms, of p] obtain s' where
    c: "create_product (Some s) p
        = (Inr (Some (dump_Product p @ [(''id'', VStr (str_oid (new_ObjectId (next_id s))))])),
           Some s')"
    and g: "get_product (Some s') (str_oid (new_ObjectId (next_id s)))
        = Inr (Some (dump_Product p @ [(''id'', VStr (str_oid (new_ObjectId (next_id s))))]))"
    by blast
  have d: "dump_Product p =
     [(''title'', VStr (title p)),
      (''description'', (case description p of None \<Rightarrow> VNone | Some t \<Rightarrow> VStr t)),
      (''price'', VFloat (price p)),
      (''category'', VStr (category p)),
      (''images'', VList (map VStr (images p))),
      (''brand'', VStr (brand p)),
      (''tags'', VList (map VStr (tags p))),
      (''variants'',
       VList (map (\<lambda>v. VDict
          [(''size'', (case size_pv v of None \<Rightarrow> VNone | Some t \<Rightarrow> VStr t)),
           (''color'', (case color_pv v of None \<Rightarrow> VNone | Some t \<Rightarrow> VStr t)),
           (''sku'', (case sku v of None \<Rightarrow> VNone | Some t \<Rightarrow> VStr t)),
           (''stock'', VInt (stock v))]) (variants p))),
      (''featured'', VBool (featured p))]"
    unfolding dump_Product_def dump_ProductVariant_def opt_str_case by (rule refl)
  show ?thesis
    by (rule exI [of _ s']) (simp add: c g d)
qed

theorem create_then_get_product_witness:
  "find_one (colls store0 ''product'') (new_ObjectId (next_id store0)) = None
   \<and> (\<exists>s'. snd (create_product (Some store0) tee) = Some s'
          \<and> fst (create_product (Some store0) tee)
            = get_product (Some s') ''000000000000000000000000''
          \<and> get_product (Some s') ''000000000000000000000000''
            = Inr (Some
                [(''title'', VStr ''Tee''),
                 (''description'', VNone),
                 (''price'', VFloat 5),
                 (''category'', VStr ''T-Shirts''),
                 (''images'', VList []),
                 (''brand'', VStr ''Vistro''),
                 (''tags'', VList []),
                 (''variants'',
                  VList [VDict [(''size'', VStr ''M''), (''color'', VNone), (''sku'', VNone),
                                (''stock'', VInt 2)]]),
                 (''featured'', VBool False),
                 (''id'', VStr ''000000000000000000000000'')]))"
proof -
  have a: "find_one (colls store0 ''product'') (new_ObjectId (next_id store0)) = None"
    by (simp add: store0_def find_one_def)
  have n: "next_id store0 = 0" by (simp add: store0_def)
  from create_then_get_product [OF a, of tee] a show ?thesis
    unfolding n str_oid_new_0 by (simp add: tee_def)
qed

subsection \<open>C4: bodies that violate a bound never reach the store\<close>

text \<open>
  Claim C4: a product body with a negative price or a variant with negative stock, and an
  order body with an item of quantity below 1, fail validation with status 422. The
  answer is the list of validation errors, which is computed from the body alone, and the
  store handle comes back as it was given: the handler, the only code that touches the
  store, is not run.
\<close>

theorem invalid_body_rejected_before_store:
  "(price p < 0 \<or> (\<exists>v \<in> set (variants p). stock v < 0) \<longrightarrow>
      validate_Product [Field ''body''] p \<noteq> [] \<and>
      post_products db p = (Inl (RequestValidationError (validate_Product [Field ''body''] p)), db) \<and>
      status_code (RequestValidationError (validate_Product [Field ''body''] p)) = 422)
   \<and> ((\<exists>item \<in> set (items ord). quantity item < 1) \<longrightarrow>
      validate_Order ve [Field ''body''] ord \<noteq> [] \<and>
      post_orders ve db ord = (Inl (RequestValidationError (validate_Order ve [Field ''body''] ord)), db) \<and>
      status_code (RequestValidationError (validate_Order ve [Field ''body''] ord)) = 422)"
proof -
  have a: "validate_Product [Field ''body''] p \<noteq> []" if "price p < 0 \<or> (\<exists>v \<in> set (variants p). stock v < 0)"
    using that enumerate_stock_errors [of _ "variants p" "[Field ''body'']" 0]
    by (auto simp: validate_Product_def constraint_def)
  have b: "validate_Order ve [Field ''body''] ord \<noteq> []" if "\<exists>item \<in> set (items ord). quantity item < 1"
    using that enumerate_quantity_errors [of _ "items ord" "[Field ''body'']" 0]
    by (auto simp: validate_Order_def)
  show ?thesis
    using a b post_products_invalid [of p db] post_orders_invalid [of ve ord db] by auto
qed

theorem invalid_body_rejected_before_store_witness:
  "price (tee\<lparr>price := - 1\<rparr>) < 0
   \<and> post_products (Some store0) (tee\<lparr>price := - 1\<rparr>)
     = (Inl (RequestValidationError (validate_Product [Field ''body''] (tee\<lparr>price := - 1\<rparr>))), Some store0)
   \<and> (\<exists>item \<in> set (items (order_of [cart (str_oid (new_ObjectId 0)) 0])). quantity item < 1)
   \<and> post_orders (\<lambda>e. True) (Some store1) (order_of [cart (str_oid (new_ObjectId 0)) 0])
     = (Inl (RequestValidationError
              (validate_Order (\<lambda>e. True) [Field ''body''] (order_of [cart (str_oid (new_ObjectId 0)) 0]))),
        Some store1)"
proof -
  have a: "price (tee\<lparr>price := - 1\<rparr>) < 0" by simp
  have b: "\<exists>item \<in> set (items (order_of [cart (str_oid (new_ObjectId 0)) 0])). quantity item < 1"
    by (simp add: order_of_def cart_def)
  from invalid_body_rejected_before_store
         [of "tee\<lparr>price := - 1\<rparr>" "Some store0" "order_of [cart (str_oid (new_ObjectId 0)) 0]"
             "\<lambda>e. True"] a
  have p: "post_products (Some store0) (tee\<lparr>price := - 1\<rparr>)
     = (Inl (RequestValidationError (validate_Product [Field ''body''] (tee\<lparr>price := - 1\<rparr>))), Some store0)"
    by blast
  from invalid_body_rejected_before_store
         [of "tee" "Some store1" "order_of [cart (str_oid (new_ObjectId 0)) 0]" "\<lambda>e. True"] b
  have q: "post_orders (\<lambda>e. True) (Some store1) (order_of [cart (str_oid (new_ObjectId 0)) 0])
     = (Inl (RequestValidationError
              (validate_Order (\<lambda>e. True) [Field ''body''] (order_of [cart (str_oid (new_ObjectId 0)) 0]))),
        Some store1)"
    by blast
  from a b p q show ?thesis by blast
qed

subsection \<open>C5: status of a failed product lookup\<close>




subsection \<open>C6: the first invalid item decides\<close>

text \<open>
  Claim C6: on a configured store, order creation goes through the items in list order
  and stops at the first one that does not resolve. When the items before \<open>bad\<close> all
  resolve and \<open>bad\<close> does not, the request fails with status 400 and a message that names
  the product id of \<open>bad\<close> (as invalid when \<open>ObjectId\<close> rejects it, as not found otherwise),
  the store is unchanged, and the loop body has run on the items before \<open>bad\<close> and on
  \<open>bad\<close>, in this order, and on no item after it.
\<close>

theorem create_order_first_invalid_item:
  assumes "items ord = pre @ bad # post"
    and "list_all (\<lambda>item. resolves s (product_id item)) pre"
    and "\<not> resolves s (product_id bad)"
  shows "create_order (Some s) ord =
           (Inl (HTTPException 400
              ((if ObjectId_of (product_id bad) = None then ''Invalid product id: ''
                else ''Product not found: '') @ product_id bad)), Some s)
         \<and> snd (check_items s (items ord)) = pre @ [bad]"
  using check_items_first_bad [OF assms(2,3), of post] assms(1)
  by (simp add: create_order_def)

theorem create_order_first_invalid_item_witness:
  "items (order_of [cart ''000000000000000000000000'' 1, cart ''nope'' 1, cart ''later'' 1])
     = [cart ''000000000000000000000000'' 1] @ cart ''nope'' 1 # [cart ''later'' 1]
   \<and> list_all (\<lambda>item. resolves store1 (product_id item)) [cart ''000000000000000000000000'' 1]
   \<and> \<not> resolves store1 (product_id (cart ''nope'' 1))
   \<and> create_order (Some store1)
        (order_of [cart ''000000000000000000000000'' 1, cart ''nope'' 1, cart ''later'' 1])
     = (Inl (HTTPException 400 ''Invalid product id: nope''), Some store1)
   \<and> snd (check_items store1
        (items (order_of [cart ''000000000000000000000000'' 1, cart ''nope'' 1,
                          cart ''later'' 1])))
     = [cart ''000000000000000000000000'' 1, cart ''nope'' 1]
   \<and> \<not> resolves store1 (product_id (cart ''                        '' 1))
   \<and> create_order (Some store1)
        (order_of [cart ''                        '' 1, cart ''later'' 1])
     = (Inl (HTTPException 400 ''Product not found:                         ''), Some store1)"
proof -
  let ?ok = "cart ''000000000000000000000000'' 1"
  have a: "items (order_of [?ok, cart ''nope'' 1, cart ''later'' 1])
     = [?ok] @ cart ''nope'' 1 # [cart ''later'' 1]"
    by (simp add: order_of_def)
  have b: "list_all (\<lambda>item. resolves store1 (product_id item)) [?ok]"
    using resolves_store1 by (simp add: cart_def str_oid_new_0)
  have c: "\<not> resolves store1 (product_id (cart ''nope'' 1))"
    by (simp add: cart_def not_resolves_nope)
  have d: "ObjectId_of (product_id (cart ''nope'' 1)) = None"
    by (simp add: cart_def ObjectId_of_def)
  have e: "product_id (cart ''nope'' 1) = ''nope''" by (simp add: cart_def)
  from create_order_first_invalid_item [OF a b c]
  have p: "create_order (Some store1) (order_of [?ok, cart ''nope'' 1, cart ''later'' 1])
     = (Inl (HTTPException 400 ''Invalid product id: nope''), Some store1)"
    and q: "snd (check_items store1 (items (order_of [?ok, cart ''nope'' 1, cart ''later'' 1])))
     = [?ok, cart ''nope'' 1]"
    using d e by simp_all
  let ?sp = "cart ''                        '' 1"
  have a': "items (order_of [?sp, cart ''later'' 1]) = [] @ ?sp # [cart ''later'' 1]"
    by (simp add: order_of_def)
  have b': "list_all (\<lambda>item. resolves store1 (product_id item)) []" by simp
  have d': "ObjectId_of (product_id ?sp) = Some (ObjectId [])"
    by (simp add: cart_def ObjectId_of_def is_space_def)
  have c': "\<not> resolves store1 (product_id ?sp)"
    using d' by (simp add: resolves_def store1_def find_one_def dict_get_def new_ObjectId_0)
  have e': "product_id ?sp = ''                        ''" by (simp add: cart_def)
  from create_order_first_invalid_item [OF a' b' c']
  have r: "create_order (Some store1) (order_of [?sp, cart ''later'' 1])
     = (Inl (HTTPException 400 ''Product not found:                         ''), Some store1)"
    using d' e' by simp
  show ?thesis by (intro conjI a b c p q c' r)
qed

subsection \<open>C7: seeding\<close>

text \<open>
  Claim C7: on an empty product collection, seeding inserts the sample products, one
  document each and in order, and returns their ids; seeding the resulting store again
  answers that the products are already seeded, with their number as the count, and
  leaves the store as it is. On any non-empty product collection, seeding answers
  "already seeded" with the number of documents and returns the store unchanged.
\<close>

theorem seed_products_idempotent:
  "(colls s ''product'' = [] \<longrightarrow>
      seed_products (Some s) =
        (Inr [(''message'', VStr ''Seeded sample products''),
              (''inserted'', VList (map VStr (map (\<lambda>k. str_oid (new_ObjectId k))
                                  [next_id s..<next_id s + length SAMPLE_PRODUCTS])))],
         Some (s\<lparr>colls := (colls s)(''product'' :=
                    map (\<lambda>(k, p). (''_id'', VOid (new_ObjectId k)) # dump_Product p)
                        (enumerate (next_id s) SAMPLE_PRODUCTS)),
                 next_id := next_id s + length SAMPLE_PRODUCTS\<rparr>))
      \<and> seed_products (snd (seed_products (Some s))) =
        (Inr [(''message'', VStr ''Products already seeded''),
              (''count'', VInt (int (length SAMPLE_PRODUCTS)))],
         snd (seed_products (Some s))))
   \<and> (colls s ''product'' \<noteq> [] \<longrightarrow>
      seed_products (Some s) =
        (Inr [(''message'', VStr ''Products already seeded''),
              (''count'', VInt (int (length (colls s ''product''))))],
         Some s))"
  by (simp add: seed_products_def count_documents_def seed_loop_result
      length_SAMPLE_PRODUCTS Let_def)

theorem seed_products_idempotent_witness:
  "colls store0 ''product'' = []
   \<and> fst (seed_products (Some store0)) =
        Inr [(''message'', VStr ''Seeded sample products''),
             (''inserted'', VList [VStr (str_oid (new_ObjectId 0)), VStr (str_oid (new_ObjectId 1)),
                                   VStr (str_oid (new_ObjectId 2))])]
   \<and> seed_products (snd (seed_products (Some store0))) =
        (Inr [(''message'', VStr ''Products already seeded''),
              (''count'', VInt (int (length SAMPLE_PRODUCTS)))],
         snd (seed_products (Some store0)))
   \<and> colls store1 ''product'' \<noteq> []
   \<and> seed_products (Some store1) =
        (Inr [(''message'', VStr ''Products already seeded''), (''count'', VInt 1)], Some store1)"
proof -
  have a: "colls store0 ''product'' = []" by (simp add: store0_def)
  have b: "colls store1 ''product'' \<noteq> []" by (simp add: store1_def)
  have n: "next_id store0 = 0" by (simp add: store0_def)
  have l: "length (colls store1 ''product'') = 1" by (simp add: store1_def)
  have u: "[0..<3] = [0, 1, 2::nat]" by (simp add: upt_rec)
  from seed_products_idempotent [of store0] a
  have p: "fst (seed_products (Some store0)) =
        Inr [(''message'', VStr ''Seeded sample products''),
             (''inserted'', VList [VStr (str_oid (new_ObjectId 0)), VStr (str_oid (new_ObjectId 1)),
                                   VStr (str_oid (new_ObjectId 2))])]"
    by (simp add: n length_SAMPLE_PRODUCTS u)
  from seed_products_idempotent [of store0] a
  have q: "seed_products (snd (seed_products (Some store0))) =
        (Inr [(''message'', VStr ''Products already seeded''),
              (''count'', VInt (int (length SAMPLE_PRODUCTS)))],
         snd (seed_products (Some store0)))"
    by blast
  from seed_products_idempotent [of store1] b l
  have r: "seed_products (Some store1) =
        (Inr [(''message'', VStr ''Products already seeded''), (''count'', VInt 1)], Some store1)"
    by simp
  from a b p q r show ?thesis by blast
qed

subsection \<open>C8: listing products\<close>

text \<open>
  Claim C8: for every store, listing with \<open>featured=true\<close> returns, serialized, exactly the
  documents of the product collection whose \<open>featured\<close> field is \<open>True\<close>, and listing with
  no filter returns every document of the collection, serialized.
\<close>

theorem list_products_featured_and_all:
  "list_products (Some s) None (Some True)
     = Inr (map (\<lambda>p. serialize_doc (Some p))
              (filter (\<lambda>d. dict_get d ''featured'' = Some (VBool True)) (colls s ''product'')))
   \<and> list_products (Some s) None None
     = Inr (map (\<lambda>p. serialize_doc (Some p)) (colls s ''product''))"
  by (simp add: list_products_def query_featured_only query_none get_documents_def
      matches_single matches_Nil)

theorem list_products_featured_and_all_witness:
  "list_products (Some store2) None (Some True)
     = Inr [Some (dump_Product (tee\<lparr>featured := True\<rparr>)
                  @ [(''id'', VStr (str_oid (new_ObjectId 1)))])]
   \<and> list_products (Some store2) None None
     = Inr [Some (dump_Product tee @ [(''id'', VStr (str_oid (new_ObjectId 0)))]),
            Some (dump_Product (tee\<lparr>featured := True\<rparr>)
                  @ [(''id'', VStr (str_oid (new_ObjectId 1)))])]"
proof -
  have c: "colls store2 ''product'' =
             [(''_id'', VOid (new_ObjectId 0)) # dump_Product tee,
              (''_id'', VOid (new_ObjectId 1)) # dump_Product (tee\<lparr>featured := True\<rparr>)]"
    by (simp add: store2_def)
  have f: "dict_get ((''_id'', VOid oid) # dump_Product tee) ''featured''
             = Some (VBool False)"
          "dict_get ((''_id'', VOid oid) # dump_Product (tee\<lparr>featured := True\<rparr>))
             ''featured'' = Some (VBool True)" for oid
    by (simp_all add: dict_get_def dump_Product_def tee_def)
  from list_products_featured_and_all [of store2] show ?thesis
    unfolding c by (simp add: f serialize_stored_Product)
qed

subsection \<open>C9: serialization leaves its input alone\<close>

text \<open>
  Claim C9: serialization does not mutate its input. After a call on a valid reference
  \<open>r\<close>, every object that existed before the call, the input among them, is what it was;
  for an empty document the very reference that was passed comes back and the heap is
  unchanged, and so for an absent document; otherwise the result is a new object, which
  holds the value that \<open>serialize_doc\<close> computes from the input.
\<close>

theorem serialize_doc_ref_frame:
  assumes "r < length h" and "serialize_doc_ref h (Some r) = (res, h')"
  shows "take (length h) h' = h \<and> h' ! r = h ! r
       \<and> (h ! r = [] \<longrightarrow> res = Some r \<and> h' = h)
       \<and> (\<exists>r'. res = Some r' \<and> r' < length h' \<and> Some (h' ! r') = serialize_doc (Some (h ! r)))
       \<and> serialize_doc_ref h None = (None, h)
       \<and> serialize_doc None = None \<and> serialize_doc (Some []) = Some []"
  using assms
  by (auto simp: serialize_doc_ref_def serialize_doc_def falsy_def Let_def nth_append
      split: if_splits)

theorem serialize_doc_ref_frame_witness:
  "(0::nat) < length [[(''_id'', VOid (ObjectId ''000000000000000000000001'')), (''n'', VInt 1)]]
   \<and> serialize_doc_ref [[(''_id'', VOid (ObjectId ''000000000000000000000001'')), (''n'', VInt 1)]]
        (Some 0)
     = (Some 1, [[(''_id'', VOid (ObjectId ''000000000000000000000001'')), (''n'', VInt 1)],
                 [(''n'', VInt 1), (''id'', VStr ''000000000000000000000001'')]])
   \<and> [[(''_id'', VOid (ObjectId ''000000000000000000000001'')), (''n'', VInt 1)],
       [(''n'', VInt 1), (''id'', VStr ''000000000000000000000001'')]] ! 0
     = [[(''_id'', VOid (ObjectId ''000000000000000000000001'')), (''n'', VInt 1)]] ! 0"
proof -
  let ?h = "[[(''_id'', VOid (ObjectId ''000000000000000000000001'')), (''n'', VInt 1)]]"
  let ?h' = "[[(''_id'', VOid (ObjectId ''000000000000000000000001'')), (''n'', VInt 1)],
              [(''n'', VInt 1), (''id'', VStr ''000000000000000000000001'')]]"
  have a: "(0::nat) < length ?h" by simp
  have b: "serialize_doc_ref ?h (Some 0) = (Some 1, ?h')"
    by (simp add: serialize_doc_ref_def rename_id_def dict_get_def dict_pop_def Let_def)
  from serialize_doc_ref_frame [OF a b] have "?h' ! 0 = ?h ! 0" by blast
  with a b show ?thesis by blast
qed

subsection \<open>C10: the empty category and featured=false\<close>

text \<open>
  Claim C10: listing with the category parameter equal to the empty string gives what
  listing without a category gives, for every store handle and every \<open>featured\<close>
  parameter; \<open>featured=false\<close> does enter the query, and the listing it gives consists of
  the documents whose \<open>featured\<close> field is \<open>False\<close>.
\<close>

theorem list_products_empty_category_absent:
  "list_products db (Some []) f = list_products db None f
   \<and> dict_get (list_products_query c (Some False)) ''featured'' = Some (VBool False)
   \<and> list_products (Some s) None (Some False)
     = Inr (map (\<lambda>p. serialize_doc (Some p))
              (filter (\<lambda>d. dict_get d ''featured'' = Some (VBool False)) (colls s ''product'')))"
  by (simp add: list_products_empty_category query_featured_False)
     (simp add: list_products_def query_featured_only get_documents_def matches_single)

theorem list_products_empty_category_absent_witness:
  "list_products (Some store2) (Some []) None = list_products (Some store2) None None
   \<and> list_products (Some store2) None (Some False)
     = Inr [Some (dump_Product tee @ [(''id'', VStr (str_oid (new_ObjectId 0)))])]
   \<and> list_products (Some store2) None (Some False) \<noteq> list_products (Some store2) None None"
proof -
  have c: "colls store2 ''product'' =
             [(''_id'', VOid (new_ObjectId 0)) # dump_Product tee,
              (''_id'', VOid (new_ObjectId 1)) # dump_Product (tee\<lparr>featured := True\<rparr>)]"
    by (simp add: store2_def)
  have f: "dict_get ((''_id'', VOid oid) # dump_Product tee) ''featured''
             = Some (VBool False)"
          "dict_get ((''_id'', VOid oid) # dump_Product (tee\<lparr>featured := True\<rparr>))
             ''featured'' = Some (VBool True)" for oid
    by (simp_all add: dict_get_def dump_Product_def tee_def)
  have a: "list_products (Some store2) None None
     = Inr [Some (dump_Product tee @ [(''id'', VStr (str_oid (new_ObjectId 0)))]),
            Some (dump_Product (tee\<lparr>featured := True\<rparr>)
                  @ [(''id'', VStr (str_oid (new_ObjectId 1)))])]"
    by (simp add: list_products_def query_none get_documents_def matches_Nil c
        serialize_stored_Product)
  from list_products_empty_category_absent [of "Some store2" None None store2]
  have p: "list_products (Some store2) (Some []) None = list_products (Some store2) None None"
    and q: "list_products (Some store2) None (Some False)
     = Inr [Some (dump_Product tee @ [(''id'', VStr (str_oid (new_ObjectId 0)))])]"
    unfolding c by (simp_all add: f serialize_stored_Product)
  from p q a show ?thesis by simp
qed

end
